theory Spec2Isabelle
  imports Main
begin

section \<open>The bot's data\<close>

text \<open>
  A shallow embedding of the Telegram bot of this repository: the middleware stack of
  \<^verbatim>\<open>src/index.ts\<close> (\<^verbatim>\<open>setupMiddleware\<close>), the middleware of
  \<^verbatim>\<open>middleware/error.middleware.ts\<close>, the command handlers and the callback
  handlers. Every middleware and handler is an \<^emph>\<open>action\<close>: a function from the
  state of the process to the way its promise settles and the state it leaves behind.

  Times are the integers \<^verbatim>\<open>Date.now()\<close> returns (milliseconds). One update reads
  the clock as one instant \<open>now\<close>.
\<close>

type_synonym time = int

text \<open>\<^verbatim>\<open>ctx.from\<close>: the sender of an update, as Telegram describes a user.\<close>

record user =
  user_id :: int
  user_name :: "string option"
  first_name :: string
  last_name :: "string option"
  language_code :: "string option"

text \<open>
  What an update carries. A text message has \<^verbatim>\<open>ctx.message.text\<close>; a button press
  has \<^verbatim>\<open>ctx.callbackQuery\<close>, whose \<^verbatim>\<open>data\<close> may be absent; the other kinds of
  message have no text.
\<close>

datatype payload =
    TextMessage string
  | CallbackQuery "string option"
  | Photo
  | Document
  | Sticker
  | Voice
  | OtherUpdate

record update =
  from_user :: "user option"
  chat_id :: int
  payload :: payload

text \<open>\<^verbatim>\<open>SessionData\<close> of \<^verbatim>\<open>types/bot.types.ts\<close>: every field is optional.\<close>

datatype user_state = idle | waiting_input | in_conversation

record SessionData =
  userId :: "int option"
  username :: "string option"
  firstName :: "string option"
  lastName :: "string option"
  languageCode :: "string option"
  userState :: "user_state option"
  lastActivity :: "time option"
  messageCount :: "int option"
  joinedAt :: "time option"
  notificationsEnabled :: "bool option"

text \<open>
  A value a promise rejects with, as \<^verbatim>\<open>handleError\<close> reads it. It is
  \<^verbatim>\<open>null\<close> or \<^verbatim>\<open>undefined\<close>, or it has properties: an optional \<^verbatim>\<open>name\<close>
  and a \<^verbatim>\<open>message\<close>. The message is absent (\<^verbatim>\<open>null\<close> or \<^verbatim>\<open>undefined\<close>, also
  for a thrown number or string, which has no such property), or a string, or any
  other value; of such a value all that matters is what the call
  \<^verbatim>\<open>message.includes(sub)\<close> does: \<open>None\<close> when the call throws (a number or a
  plain object has no such method), otherwise whether the result is truthy (an array
  looks for the element). An \<^verbatim>\<open>Error\<close> object has a string as its message.
\<close>

datatype message_field = Absent | Str string | NonString "string \<Rightarrow> bool option"

datatype thrown = Nullish | Thrown "string option" message_field

datatype outcome = Resolved | Rejected thrown

text \<open>
  What the backend's sign-up endpoint does with a request of \<^verbatim>\<open>post\<close>
  (\<^verbatim>\<open>services/api/post.ts\<close>): it returns a status and the data, or the call throws.
\<close>

datatype post_result = PostReturns int string | PostThrows thrown

text \<open>
  The configuration the process resolves when it starts: \<^verbatim>\<open>botConfig.rateLimit\<close>,
  \<^verbatim>\<open>adminConfig.adminIds\<close>, the ids of \<^verbatim>\<open>BANNED_USERS\<close>,
  \<^verbatim>\<open>botConfig.environment === 'development'\<close>, and the instant at which
  \<^verbatim>\<open>config/bot.config.ts\<close> was loaded: \<^verbatim>\<open>defaultSessionData\<close> is a constant of
  that module, so the two \<^verbatim>\<open>Date.now()\<close> in it are evaluated once, at load time.
  \<open>signUp\<close> is the backend, an external collaborator.
\<close>

record config =
  rateLimit_window :: int
  rateLimit_max :: int
  adminIds :: "int list"
  bannedUsers :: "int list"
  development :: bool
  loadTime :: time
  signUp :: "string \<Rightarrow> int option \<Rightarrow> post_result"

text \<open>
  The texts and keyboards the bot sends. They are constants of the source (most of them
  with characters outside ASCII), so each is named here instead of spelled out; a text
  built from a value carries the value.
\<close>

datatype message =
    TooManyRequests
  | BannedNotice
  | GenericErrorText
  | NetworkErrorText
  | ConfigurationErrorText
  | UnknownCommand
  | PermissionDenied
  | EnterInviterId
  | Welcome
  | BackendData string
  | Help
  | About
  | SettingsMenu
  | Cancelled
  | StatsText
  | BroadcastUsage
  | BroadcastPreview string
  | LogsText
  | DebugInfo
  | InputReceived
  | MessageReceived
  | NicePhoto
  | DocumentReceived
  | GreatSticker
  | VoiceReceived
  | UnknownActionTryAgain
  | CallbackErrorText
  | UnknownAction
  | RetryLastAction
  | SupportText
  | LanguageSettings
  | NotificationsNow bool
  | UnknownSetting
  | UnknownLanguage
  | LanguageChanged string
  | BroadcastSent

datatype keyboard =
    NoKeyboard
  | MainMenu
  | SettingsKeyboard
  | LanguageKeyboard
  | BackButton
  | RetrySupport
  | HelpButton
  | HelpSettingsButtons
  | OpenMiniApp
  | ConfirmCancel time

text \<open>The calls to the Telegram Bot API and to the backend.\<close>

datatype api_call =
    Reply message keyboard
  | EditMessageText message keyboard
  | AnswerCallbackQuery
  | Post string "int option"

datatype level = LError | LWarn | LInfo | LConsole

text \<open>
  The key of a rate-limit window: \<^verbatim>\<open>ctx.from?.id?.toString() || 'unknown'\<close>. The
  decimal strings of different ids differ, and none is \<^verbatim>\<open>'unknown'\<close>.
\<close>

datatype rl_key = Uid int | UnknownUser

record rate_record =
  count :: int
  resetTime :: time

text \<open>
  The state of the process: the rate-limit map of \<^verbatim>\<open>setupMiddleware\<close>, the in-memory
  storage of the session plugin (keyed by the chat), the \<^verbatim>\<open>session\<close> property of the
  context of the update being processed (absent until the session plugin installs it),
  the calls made so far, each with whether it succeeded, and the log. \<open>transport\<close> is
  the environment: how the calls still to come will settle, in order (\<open>None\<close>: the call
  succeeds; once the list is used up every call succeeds).
\<close>

record bot_state =
  rateLimitStore :: "rl_key \<rightharpoonup> rate_record"
  sessionStorage :: "int \<rightharpoonup> SessionData"
  ctx_session :: "SessionData option"
  calls :: "(api_call \<times> bool) list"
  logs :: "(level \<times> string) list"
  transport :: "thrown option list"

type_synonym action = "bot_state \<Rightarrow> outcome \<times> bot_state"

section \<open>Primitives\<close>

definition logger :: "level \<Rightarrow> string \<Rightarrow> bot_state \<Rightarrow> bot_state" where
  "logger lvl msg st = st\<lparr>logs := logs st @ [(lvl, msg)]\<rparr>"

text \<open>\<^verbatim>\<open>logUserAction\<close> and \<^verbatim>\<open>logBotEvent\<close> of \<^verbatim>\<open>utils/logger.ts\<close>.\<close>

definition logUserAction :: "string \<Rightarrow> bot_state \<Rightarrow> bot_state" where
  "logUserAction a st = logger LInfo (''User Action: '' @ a) st"

definition logBotEvent :: "string \<Rightarrow> bot_state \<Rightarrow> bot_state" where
  "logBotEvent e st = logger LInfo (''Bot Event: '' @ e) st"

text \<open>One call to the Bot API: it is recorded, and settles as the transport says.\<close>

definition api :: "api_call \<Rightarrow> action" where
  "api c st =
     (case transport st of
        [] \<Rightarrow> (Resolved, st\<lparr>calls := calls st @ [(c, True)]\<rparr>)
      | None # rest \<Rightarrow> (Resolved, st\<lparr>calls := calls st @ [(c, True)], transport := rest\<rparr>)
      | Some e # rest \<Rightarrow> (Rejected e, st\<lparr>calls := calls st @ [(c, False)], transport := rest\<rparr>))"

definition ctx_reply :: "message \<Rightarrow> keyboard \<Rightarrow> action" where
  "ctx_reply t k = api (Reply t k)"

definition ctx_editMessageText :: "message \<Rightarrow> keyboard \<Rightarrow> action" where
  "ctx_editMessageText t k = api (EditMessageText t k)"

definition ctx_answerCallbackQuery :: action where
  "ctx_answerCallbackQuery = api AnswerCallbackQuery"


section \<open>The rate limiter\<close>

text \<open>
  The third middleware of \<^verbatim>\<open>setupMiddleware\<close> (index.ts, lines 79 to 103). A window
  is reset when \<^verbatim>\<open>now > userLimit.resetTime\<close>; a request within a full window gets
  the notice and \<^verbatim>\<open>next\<close> is not called.
\<close>

definition rate_key :: "update \<Rightarrow> rl_key" where
  "rate_key u = (case from_user u of None \<Rightarrow> UnknownUser | Some usr \<Rightarrow> Uid (user_id usr))"

definition rateLimitMiddleware :: "config \<Rightarrow> time \<Rightarrow> update \<Rightarrow> action \<Rightarrow> action" where
  "rateLimitMiddleware cfg now u next st =
     (let uid = rate_key u;
          windowDuration = rateLimit_window cfg;
          maxRequests = rateLimit_max cfg;
          fresh = \<lparr>count = 1, resetTime = now + windowDuration\<rparr>
      in case rateLimitStore st uid of
           None \<Rightarrow> next (st\<lparr>rateLimitStore := (rateLimitStore st)(uid \<mapsto> fresh)\<rparr>)
         | Some userLimit \<Rightarrow>
             if now > resetTime userLimit
             then next (st\<lparr>rateLimitStore := (rateLimitStore st)(uid \<mapsto> fresh)\<rparr>)
             else if count userLimit \<ge> maxRequests
             then ctx_reply TooManyRequests NoKeyboard st
             else next (st\<lparr>rateLimitStore :=
                    (rateLimitStore st)(uid \<mapsto> userLimit\<lparr>count := count userLimit + 1\<rparr>)\<rparr>))"

text \<open>
  The decision of that middleware alone, on the map: whether the request goes on, and
  the map afterwards. \<open>admit_all\<close> takes the requests of one key one after the other.
\<close>

datatype decision = Allow | Deny

definition admit ::
  "config \<Rightarrow> rl_key \<Rightarrow> time \<Rightarrow> (rl_key \<rightharpoonup> rate_record) \<Rightarrow> decision \<times> (rl_key \<rightharpoonup> rate_record)" where
  "admit cfg uid now store =
     (let fresh = \<lparr>count = 1, resetTime = now + rateLimit_window cfg\<rparr>
      in case store uid of
           None \<Rightarrow> (Allow, store(uid \<mapsto> fresh))
         | Some userLimit \<Rightarrow>
             if now > resetTime userLimit then (Allow, store(uid \<mapsto> fresh))
             else if count userLimit \<ge> rateLimit_max cfg then (Deny, store)
             else (Allow, store(uid \<mapsto> userLimit\<lparr>count := count userLimit + 1\<rparr>)))"


section \<open>Strings\<close>

text \<open>
  The string operations of the source on \<open>string\<close>: \<^verbatim>\<open>s.startsWith('/')\<close>,
  \<^verbatim>\<open>s.includes(sub)\<close>, \<^verbatim>\<open>s.split(d)\<close> for a one-character delimiter (never an
  empty list: the split of the empty string is one empty string), \<^verbatim>\<open>s.trim()\<close> and
  \<^verbatim>\<open>s.replace(pat, '')\<close>, which removes the first occurrence of \<open>pat\<close>. A
  \<open>char\<close> is a code unit below 256; the white space \<^verbatim>\<open>trim\<close> strips among these
  is the space, the characters 9 to 13 and the no-break space 160.
\<close>

definition startsWith_slash :: "string \<Rightarrow> bool" where
  "startsWith_slash s = (case s of [] \<Rightarrow> False | c # cs \<Rightarrow> c = CHR ''/'')"

fun str_includes :: "string \<Rightarrow> string \<Rightarrow> bool" where
  "str_includes [] sub = (sub = [])"
| "str_includes (c # cs) sub = (if take (length sub) (c # cs) = sub then True else str_includes cs sub)"

fun split_on :: "char \<Rightarrow> string \<Rightarrow> string list" where
  "split_on d [] = [[]]"
| "split_on d (c # cs) =
     (if c = d then [] # split_on d cs
      else (case split_on d cs of [] \<Rightarrow> [[c]] | w # ws \<Rightarrow> (c # w) # ws))"

definition is_space :: "char \<Rightarrow> bool" where
  "is_space c = (c \<in> set [CHR '' '', CHR 0x09, CHR 0x0A, CHR 0x0B, CHR 0x0C, CHR 0x0D, CHR 0xA0])"

definition trim :: "string \<Rightarrow> string" where
  "trim s = rev (dropWhile is_space (rev (dropWhile is_space s)))"

fun remove_first :: "string \<Rightarrow> string \<Rightarrow> string" where
  "remove_first pat [] = []"
| "remove_first pat (c # cs) =
     (if take (length pat) (c # cs) = pat then drop (length pat) (c # cs)
      else c # remove_first pat cs)"

text \<open>\<^verbatim>\<open>ctx.message?.text\<close>.\<close>

definition message_text :: "update \<Rightarrow> string option" where
  "message_text u = (case payload u of TextMessage t \<Rightarrow> Some t | _ \<Rightarrow> None)"

text \<open>
  The command of a text: \<^verbatim>\<open>text.split(' ')[0].substring(1)\<close>, as
  \<^verbatim>\<open>commandValidationMiddleware\<close> computes it. The router of the framework
  (\<^verbatim>\<open>bot.command\<close>) is given the same token: on the commands that pass the
  validation the two agree.
\<close>

definition command_token :: "string \<Rightarrow> string" where
  "command_token t = drop 1 (takeWhile (\<lambda>c. c \<noteq> CHR '' '') t)"

section \<open>Sequencing\<close>

text \<open>
  \<open>andThen a b\<close> is \<^verbatim>\<open>await a; b\<close>: when \<open>a\<close> rejects, \<open>b\<close> does not run and the
  state is the one \<open>a\<close> left. \<open>try_catch a h\<close> is \<^verbatim>\<open>try { await a } catch (e) { h(e) }\<close>.
\<close>

definition andThen :: "action \<Rightarrow> action \<Rightarrow> action" where
  "andThen a b st = (case a st of (Resolved, st') \<Rightarrow> b st' | (Rejected e, st') \<Rightarrow> (Rejected e, st'))"

definition try_catch :: "action \<Rightarrow> (thrown \<Rightarrow> action) \<Rightarrow> action" where
  "try_catch a h st = (case a st of (Resolved, st') \<Rightarrow> (Resolved, st') | (Rejected e, st') \<Rightarrow> h e st')"

definition returns :: action where
  "returns st = (Resolved, st)"

text \<open>
  Reading or writing a property of \<^verbatim>\<open>undefined\<close> or \<^verbatim>\<open>null\<close>, and calling what
  is not a function, throws a \<^verbatim>\<open>TypeError\<close>. (Its message differs from case to
  case; none of them has one of the keywords \<^verbatim>\<open>handleError\<close> looks for.)
\<close>

definition TypeError :: thrown where
  "TypeError = Thrown (Some ''TypeError'') (Str ''Cannot read properties of undefined'')"

section \<open>The error boundary\<close>

text \<open>
  \<^verbatim>\<open>errorMiddleware\<close>, \<^verbatim>\<open>handleError\<close> and \<^verbatim>\<open>notifyAdmins\<close> of
  \<^verbatim>\<open>middleware/error.middleware.ts\<close>. \<open>error_kind\<close> is the chain of
  \<^verbatim>\<open>error.message?.includes(...)\<close> of \<^verbatim>\<open>handleError\<close>: the type of the error and
  the text for the user, or \<open>None\<close> when one of the calls throws. \<^verbatim>\<open>handleError\<close>
  reads \<^verbatim>\<open>error.message\<close> for its first log line, before anything else: of
  \<^verbatim>\<open>null\<close> or \<^verbatim>\<open>undefined\<close> that read throws, and nothing is logged. Neither
  that read nor the chain is inside a \<^verbatim>\<open>try\<close>, so \<^verbatim>\<open>handleError\<close> then rejects.
\<close>

datatype BotErrorType =
    RATE_LIMIT_EXCEEDED
  | USER_BANNED
  | INVALID_COMMAND
  | NETWORK_ERROR
  | CONFIGURATION_ERROR
  | UNKNOWN_ERROR

definition message_includes :: "message_field \<Rightarrow> string \<Rightarrow> bool option" where
  "message_includes m sub =
     (case m of
        Absent \<Rightarrow> Some False
      | Str m' \<Rightarrow> Some (str_includes m' sub)
      | NonString call \<Rightarrow> call sub)"

definition error_kind :: "message_field \<Rightarrow> (BotErrorType \<times> message) option" where
  "error_kind m =
     (case message_includes m ''rate limit'' of
        None \<Rightarrow> None
      | Some rate \<Rightarrow>
          if rate then Some (RATE_LIMIT_EXCEEDED, TooManyRequests)
          else (case message_includes m ''banned'' of
                  None \<Rightarrow> None
                | Some banned \<Rightarrow>
                    if banned then Some (USER_BANNED, BannedNotice)
                    else (case message_includes m ''network'' of
                            None \<Rightarrow> None
                          | Some network \<Rightarrow>
                              if network then Some (NETWORK_ERROR, NetworkErrorText)
                              else (case message_includes m ''configuration'' of
                                      None \<Rightarrow> None
                                    | Some configuration \<Rightarrow>
                                        if configuration
                                        then Some (CONFIGURATION_ERROR, ConfigurationErrorText)
                                        else Some (UNKNOWN_ERROR, GenericErrorText)))))"

definition notifyAdmins :: "config \<Rightarrow> action" where
  "notifyAdmins cfg st = (Resolved, fold (\<lambda>adminId. logger LInfo ''Would notify admin'') (adminIds cfg) st)"

definition handleError :: "config \<Rightarrow> thrown \<Rightarrow> action" where
  "handleError cfg e st =
     (case e of
        Nullish \<Rightarrow> (Rejected TypeError, st)
      | Thrown name msg \<Rightarrow>
          (let st1 = logger LError ''Bot error occurred'' st
           in case error_kind msg of
                None \<Rightarrow> (Rejected TypeError, st1)
              | Some (errorType, userMessage) \<Rightarrow>
                  (let st2 = (case ctx_reply userMessage RetrySupport st1 of
                                (Resolved, s) \<Rightarrow> s
                              | (Rejected replyError, s) \<Rightarrow>
                                  logger LError ''Failed to send error message to user'' s)
                   in if errorType = CONFIGURATION_ERROR then notifyAdmins cfg st2
                      else if errorType = UNKNOWN_ERROR then notifyAdmins cfg st2
                      else (Resolved, st2))))"

definition errorMiddleware :: "config \<Rightarrow> action \<Rightarrow> action" where
  "errorMiddleware cfg next = try_catch next (handleError cfg)"

section \<open>User validation\<close>

text \<open>
  \<^verbatim>\<open>userValidationMiddleware\<close>. The ids of \<^verbatim>\<open>BANNED_USERS\<close> are the numbers the
  variable lists. The session is touched only \<^verbatim>\<open>if (ctx.session)\<close>;
  \<^verbatim>\<open>(ctx.session.messageCount || 0) + 1\<close> counts from 0 when the count is absent.
\<close>

definition touch :: "user \<Rightarrow> time \<Rightarrow> SessionData \<Rightarrow> SessionData" where
  "touch usr now s =
     s\<lparr>userId := Some (user_id usr),
       username := user_name usr,
       firstName := Some (first_name usr),
       lastName := last_name usr,
       languageCode := language_code usr,
       lastActivity := Some now,
       messageCount := Some ((case messageCount s of None \<Rightarrow> 0 | Some n \<Rightarrow> n) + 1)\<rparr>"

definition userValidationMiddleware :: "config \<Rightarrow> time \<Rightarrow> update \<Rightarrow> action \<Rightarrow> action" where
  "userValidationMiddleware cfg now u next st =
     (case from_user u of
        None \<Rightarrow> (Resolved, logger LWarn ''Message received without user information'' st)
      | Some usr \<Rightarrow>
          if user_id usr \<in> set (bannedUsers cfg)
          then ctx_reply BannedNotice NoKeyboard (logger LInfo ''Banned user attempted to use bot'' st)
          else next (case ctx_session st of
                       None \<Rightarrow> st
                     | Some s \<Rightarrow> st\<lparr>ctx_session := Some (touch usr now s)\<rparr>))"

section \<open>The session plugin\<close>

text \<open>
  \<^verbatim>\<open>defaultSessionData\<close> of \<^verbatim>\<open>config/bot.config.ts\<close>: its two times are the load
  time of the module.
\<close>

definition defaultSessionData :: "config \<Rightarrow> SessionData" where
  "defaultSessionData cfg =
     \<lparr>userId = None, username = None, firstName = None, lastName = None,
      languageCode = Some ''en'', userState = Some idle,
      lastActivity = Some (loadTime cfg), messageCount = Some 0,
      joinedAt = Some (loadTime cfg), notificationsEnabled = None\<rparr>"

text \<open>
  The framework's \<^verbatim>\<open>session({ initial, storage: undefined })\<close>, the fourth middleware:
  it reads the session of the chat from its in-memory storage, or takes a copy of
  \<^verbatim>\<open>defaultSessionData\<close> when the chat has none, installs it as \<^verbatim>\<open>ctx.session\<close>,
  runs the rest, and writes \<^verbatim>\<open>ctx.session\<close> back when the rest resolved. When the
  rest rejected nothing is written back; a session that was already stored is the very
  object the handlers changed, so it keeps their changes all the same.
\<close>

definition save_session :: "int \<Rightarrow> bot_state \<Rightarrow> bot_state" where
  "save_session key st =
     (case ctx_session st of
        None \<Rightarrow> st\<lparr>sessionStorage := (sessionStorage st)(key := None)\<rparr>
      | Some s \<Rightarrow> st\<lparr>sessionStorage := (sessionStorage st)(key \<mapsto> s)\<rparr>)"

definition sessionMiddleware :: "config \<Rightarrow> update \<Rightarrow> action \<Rightarrow> action" where
  "sessionMiddleware cfg u next st =
     (let key = chat_id u;
          stored = sessionStorage st key;
          s = (case stored of None \<Rightarrow> defaultSessionData cfg | Some s \<Rightarrow> s)
      in case next (st\<lparr>ctx_session := Some s\<rparr>) of
           (Resolved, st') \<Rightarrow> (Resolved, save_session key st')
         | (Rejected e, st') \<Rightarrow>
             (Rejected e, case stored of None \<Rightarrow> st' | Some old \<Rightarrow> save_session key st'))"

section \<open>Command validation and the admin check\<close>

definition validCommands :: "string list" where
  "validCommands = [''start'', ''help'', ''settings'', ''about'', ''cancel'']"

definition commandValidationMiddleware :: "update \<Rightarrow> action \<Rightarrow> action" where
  "commandValidationMiddleware u next st =
     (case message_text u of
        None \<Rightarrow> next st
      | Some t \<Rightarrow>
          if startsWith_slash t
          then (if command_token t \<in> set validCommands then next st
                else ctx_reply UnknownCommand HelpButton (logger LInfo ''Invalid command received'' st))
          else next st)"

text \<open>
  \<^verbatim>\<open>adminMiddleware\<close>: \<^verbatim>\<open>!userId || !adminConfig.adminIds.includes(userId)\<close>; the
  id 0 is falsy. The warning is logged after the reply was sent.
\<close>

definition adminMiddleware :: "config \<Rightarrow> update \<Rightarrow> action \<Rightarrow> action" where
  "adminMiddleware cfg u next st =
     (let refuse = andThen (ctx_reply PermissionDenied NoKeyboard)
                     (\<lambda>s. (Resolved, logger LWarn ''Non-admin attempted to use admin command'' s))
      in case from_user u of
           None \<Rightarrow> refuse st
         | Some usr \<Rightarrow>
             if user_id usr = 0 then refuse st
             else if user_id usr \<in> set (adminIds cfg) then next st
             else refuse st)"

section \<open>Command handlers\<close>

text \<open>
  The handlers of \<^verbatim>\<open>handlers/commands.handler.ts\<close>. \<^verbatim>\<open>startCommand\<close> sets
  \<^verbatim>\<open>joinedAt\<close> only \<^verbatim>\<open>if (!ctx.session.joinedAt)\<close>: when it is absent or 0.
  The inviter is \<^verbatim>\<open>text.slice(6).trim()\<close>; an empty one gets the prompt and no
  request is made.
\<close>

definition falsy :: "int option \<Rightarrow> bool" where
  "falsy v = (case v of None \<Rightarrow> True | Some n \<Rightarrow> n = 0)"

definition startCommand :: "config \<Rightarrow> time \<Rightarrow> update \<Rightarrow> action" where
  "startCommand cfg now u st =
     (let st1 = logUserAction ''start_command'' st
      in case ctx_session st1 of
           None \<Rightarrow> (Rejected TypeError, st1)
         | Some s \<Rightarrow>
             (let s' = (if falsy (joinedAt s) then s\<lparr>joinedAt := Some now, messageCount := Some 0\<rparr> else s);
                  st2 = st1\<lparr>ctx_session := Some s'\<rparr>;
                  inviterId = (case message_text u of None \<Rightarrow> [] | Some t \<Rightarrow> trim (drop 6 t));
                  sender = map_option user_id (from_user u)
              in if inviterId = [] then ctx_reply EnterInviterId NoKeyboard st2
                 else (case signUp cfg inviterId sender of
                         PostThrows e \<Rightarrow>
                           (Rejected e, st2\<lparr>calls := calls st2 @ [(Post inviterId sender, False)]\<rparr>)
                       | PostReturns status data \<Rightarrow>
                           (let st3 = st2\<lparr>calls := calls st2 @ [(Post inviterId sender, True)]\<rparr>
                            in if status = 201 then ctx_reply Welcome OpenMiniApp st3
                               else ctx_reply (BackendData data) NoKeyboard st3))))"

definition helpCommand :: action where
  "helpCommand st = ctx_reply Help MainMenu (logUserAction ''help_command'' st)"

definition settingsCommand :: action where
  "settingsCommand st = ctx_reply SettingsMenu SettingsKeyboard (logUserAction ''settings_command'' st)"

definition aboutCommand :: action where
  "aboutCommand st = ctx_reply About BackButton (logUserAction ''about_command'' st)"

definition set_idle :: "bot_state \<Rightarrow> bot_state" where
  "set_idle st =
     (case ctx_session st of
        None \<Rightarrow> st
      | Some s \<Rightarrow> st\<lparr>ctx_session := Some (s\<lparr>userState := Some idle\<rparr>)\<rparr>)"

definition cancelCommand :: action where
  "cancelCommand st = ctx_reply Cancelled MainMenu (set_idle (logUserAction ''cancel_command'' st))"

definition statsCommand :: action where
  "statsCommand st = ctx_reply StatsText NoKeyboard (logUserAction ''stats_command'' st)"

definition broadcastCommand :: "time \<Rightarrow> update \<Rightarrow> action" where
  "broadcastCommand now u st =
     (let st1 = logUserAction ''broadcast_command'' st;
          t = (case message_text u of None \<Rightarrow> [] | Some m \<Rightarrow> trim (remove_first ''/broadcast'' m))
      in if t = [] then ctx_reply BroadcastUsage NoKeyboard st1
         else ctx_reply (BroadcastPreview t) (ConfirmCancel now) st1)"

definition logsCommand :: action where
  "logsCommand st = ctx_reply LogsText NoKeyboard (logUserAction ''logs_command'' st)"

definition debugCommand :: action where
  "debugCommand st = ctx_reply DebugInfo NoKeyboard st"

section \<open>Callback handlers\<close>

text \<open>
  The handlers of \<^verbatim>\<open>handlers/callbacks.handler.ts\<close>. The verb of a payload is
  \<^verbatim>\<open>params[0]\<close>, absent when the payload has no colon.
\<close>

definition handleActionCallback :: "string option \<Rightarrow> action" where
  "handleActionCallback verb st =
     (if verb = Some ''main'' then ctx_editMessageText Welcome MainMenu st
      else if verb = Some ''help'' then ctx_editMessageText Help MainMenu st
      else if verb = Some ''about'' then ctx_editMessageText About BackButton st
      else if verb = Some ''settings'' then ctx_editMessageText SettingsMenu SettingsKeyboard st
      else if verb = Some ''back'' then ctx_editMessageText Welcome MainMenu st
      else if verb = Some ''cancel'' then ctx_editMessageText Cancelled MainMenu (set_idle st)
      else if verb = Some ''retry'' then ctx_editMessageText RetryLastAction MainMenu st
      else if verb = Some ''support'' then ctx_editMessageText SupportText BackButton st
      else ctx_editMessageText UnknownAction MainMenu st)"

definition handleSettingsCallback :: "string option \<Rightarrow> action" where
  "handleSettingsCallback setting st =
     (if setting = Some ''language'' then ctx_editMessageText LanguageSettings LanguageKeyboard st
      else if setting = Some ''notifications''
      then (case ctx_session st of
              None \<Rightarrow> (Rejected TypeError, st)
            | Some s \<Rightarrow>
                (let enabled = (case notificationsEnabled s of None \<Rightarrow> True | Some b \<Rightarrow> b)
                 in ctx_editMessageText (NotificationsNow (\<not> enabled)) SettingsKeyboard
                      (st\<lparr>ctx_session := Some (s\<lparr>notificationsEnabled := Some (\<not> enabled)\<rparr>)\<rparr>)))
      else ctx_editMessageText UnknownSetting SettingsKeyboard st)"

text \<open>
  \<^verbatim>\<open>languages[language]\<close> reads an object literal with the keys en, ru, es and fr:
  it also finds what every object inherits from \<^verbatim>\<open>Object.prototype\<close>, and those
  values are truthy.
\<close>

definition language_keys :: "string list" where
  "language_keys = [''en'', ''ru'', ''es'', ''fr'']"

definition object_prototype_keys :: "string list" where
  "object_prototype_keys =
     [''constructor'', ''__defineGetter__'', ''__defineSetter__'', ''hasOwnProperty'',
      ''__lookupGetter__'', ''__lookupSetter__'', ''isPrototypeOf'', ''propertyIsEnumerable'',
      ''toString'', ''valueOf'', ''__proto__'', ''toLocaleString'']"

definition handleLanguageCallback :: "string option \<Rightarrow> action" where
  "handleLanguageCallback language st =
     (case language of
        None \<Rightarrow> ctx_editMessageText UnknownLanguage LanguageKeyboard st
      | Some l \<Rightarrow>
          if l \<in> set language_keys \<union> set object_prototype_keys
          then ctx_editMessageText (LanguageChanged l) SettingsKeyboard
                 (logUserAction ''language_change''
                   (case ctx_session st of
                      None \<Rightarrow> st
                    | Some s \<Rightarrow> st\<lparr>ctx_session := Some (s\<lparr>languageCode := Some l\<rparr>)\<rparr>))
          else ctx_editMessageText UnknownLanguage LanguageKeyboard st)"

definition handleBroadcastCallback :: "string list \<Rightarrow> action" where
  "handleBroadcastCallback params st =
     (case params of
        [] \<Rightarrow> (Resolved, st)
      | subAction # rest \<Rightarrow>
          if subAction = ''confirm''
          then andThen (ctx_editMessageText BroadcastSent NoKeyboard)
                 (\<lambda>s. (Resolved, logUserAction ''broadcast_sent'' s)) st
          else (Resolved, st))"

definition first_param :: "string list \<Rightarrow> string option" where
  "first_param params = (case params of [] \<Rightarrow> None | p # ps \<Rightarrow> Some p)"

text \<open>
  The \<^verbatim>\<open>switch\<close> of \<^verbatim>\<open>callbackQueryHandler\<close> on the namespace, and the handler: it
  returns at once when the data is absent or empty, answers the query (outside the
  \<^verbatim>\<open>try\<close>), and on an error of the \<^verbatim>\<open>switch\<close> edits the message once more.
\<close>

definition callback_switch :: "string \<Rightarrow> string list \<Rightarrow> action" where
  "callback_switch namespace params st =
     (if namespace = ''action'' then handleActionCallback (first_param params) st
      else if namespace = ''settings'' then handleSettingsCallback (first_param params) st
      else if namespace = ''lang'' then handleLanguageCallback (first_param params) st
      else if namespace = ''broadcast'' then handleBroadcastCallback params st
      else ctx_editMessageText UnknownActionTryAgain MainMenu st)"

definition callbackQueryHandler :: "update \<Rightarrow> action" where
  "callbackQueryHandler u st =
     (case payload u of
        CallbackQuery (Some callbackData) \<Rightarrow>
          if callbackData = [] then (Resolved, st)
          else andThen ctx_answerCallbackQuery
                 (case split_on CHR '':'' callbackData of
                    [] \<Rightarrow> returns
                  | namespace # params \<Rightarrow>
                      try_catch (callback_switch namespace params)
                        (\<lambda>error s. ctx_editMessageText CallbackErrorText MainMenu
                           (logger LConsole ''Error handling callback:'' s)))
                 (logUserAction ''callback_query'' st)
      | _ \<Rightarrow> (Resolved, st))"

section \<open>Message handlers and the router\<close>

definition textMessageHandler :: "string \<Rightarrow> action" where
  "textMessageHandler t st =
     (if startsWith_slash t then (Resolved, st)
      else (let st1 = logBotEvent ''text_message_received'' st
            in if (case ctx_session st1 of None \<Rightarrow> None | Some s \<Rightarrow> userState s) = Some waiting_input
               then ctx_reply InputReceived NoKeyboard st1
               else ctx_reply MessageReceived HelpSettingsButtons st1))"

text \<open>
  The handlers as \<^verbatim>\<open>setupCommands\<close>, \<^verbatim>\<open>setupCallbackHandlers\<close> and
  \<^verbatim>\<open>setupMessageHandlers\<close> register them: the first one whose filter matches the
  update runs, and no other. The debug command exists in development only. An update
  that matches none is dropped.
\<close>

definition handlers :: "config \<Rightarrow> time \<Rightarrow> update \<Rightarrow> action" where
  "handlers cfg now u st =
     (case payload u of
        TextMessage t \<Rightarrow>
          (let c = (if startsWith_slash t then Some (command_token t) else None)
           in if c = Some ''start'' then startCommand cfg now u st
              else if c = Some ''help'' then helpCommand st
              else if c = Some ''settings'' then settingsCommand st
              else if c = Some ''about'' then aboutCommand st
              else if c = Some ''cancel'' then cancelCommand st
              else if c = Some ''stats'' then adminMiddleware cfg u statsCommand st
              else if c = Some ''broadcast'' then adminMiddleware cfg u (broadcastCommand now u) st
              else if c = Some ''logs'' then adminMiddleware cfg u logsCommand st
              else if c = Some ''debug'' \<and> development cfg then adminMiddleware cfg u debugCommand st
              else textMessageHandler t st)
      | CallbackQuery d \<Rightarrow> callbackQueryHandler u st
      | Photo \<Rightarrow> ctx_reply NicePhoto NoKeyboard (logBotEvent ''photo_received'' st)
      | Document \<Rightarrow> ctx_reply DocumentReceived NoKeyboard (logBotEvent ''document_received'' st)
      | Sticker \<Rightarrow> ctx_reply GreatSticker NoKeyboard (logBotEvent ''sticker_received'' st)
      | Voice \<Rightarrow> ctx_reply VoiceReceived NoKeyboard (logBotEvent ''voice_received'' st)
      | OtherUpdate \<Rightarrow> (Resolved, st))"

section \<open>One update through the stack\<close>

text \<open>
  The middleware in the order of \<^verbatim>\<open>setupMiddleware\<close>: the error boundary, user
  validation, the rate limiter, the session plugin, command validation, then the
  handlers. (The conversations plugin between the last two passes every update on: no
  handler enters a conversation.) Every update has a context of its own, so its
  \<^verbatim>\<open>session\<close> property is absent when the first middleware runs.
\<close>

definition process_update :: "config \<Rightarrow> time \<Rightarrow> update \<Rightarrow> action" where
  "process_update cfg now u st =
     errorMiddleware cfg
       (userValidationMiddleware cfg now u
         (rateLimitMiddleware cfg now u
           (sessionMiddleware cfg u
             (commandValidationMiddleware u
               (handlers cfg now u)))))
       (st\<lparr>ctx_session := None\<rparr>)"

text \<open>
  The states the process can be in: it starts with both maps empty, and every update is
  processed at some time, with some behaviour of the transport.
\<close>

definition initial_state :: bot_state where
  "initial_state =
     \<lparr>rateLimitStore = Map.empty, sessionStorage = Map.empty, ctx_session = None,
      calls = [], logs = [], transport = []\<rparr>"

inductive reachable :: "config \<Rightarrow> bot_state \<Rightarrow> bool" for cfg :: config where
  start: "reachable cfg initial_state"
| step: "reachable cfg st \<Longrightarrow> reachable cfg (snd (process_update cfg now u (st\<lparr>transport := tr\<rparr>)))"

section \<open>Examples\<close>

definition example_config :: config where
  "example_config =
     \<lparr>rateLimit_window = 60000, rateLimit_max = 20, adminIds = [1], bannedUsers = [111],
      development = True, loadTime = 1000, signUp = (\<lambda>inviterId uid. PostReturns 201 [])\<rparr>"

definition example_user :: "int \<Rightarrow> user" where
  "example_user n =
     \<lparr>user_id = n, user_name = None, first_name = ''Ann'', last_name = None, language_code = None\<rparr>"

definition text_from :: "int \<Rightarrow> string \<Rightarrow> update" where
  "text_from n t = \<lparr>from_user = Some (example_user n), chat_id = n, payload = TextMessage t\<rparr>"

definition callback_from :: "int \<Rightarrow> string \<Rightarrow> update" where
  "callback_from n d = \<lparr>from_user = Some (example_user n), chat_id = n, payload = CallbackQuery (Some d)\<rparr>"

text \<open>A state whose only rate-limit window is that of user \<open>n\<close>.\<close>

definition window_at :: "int \<Rightarrow> int \<Rightarrow> time \<Rightarrow> bot_state" where
  "window_at n c t = initial_state\<lparr>rateLimitStore := [Uid n \<mapsto> \<lparr>count = c, resetTime = t\<rparr>]\<rparr>"

definition channel_post :: update where
  "channel_post = \<lparr>from_user = None, chat_id = - 100, payload = TextMessage ''hello''\<rparr>"


section \<open>Notions for the properties\<close>






text \<open>A transport on which every call still to come succeeds.\<close>

definition reliable :: "bot_state \<Rightarrow> bool" where
  "reliable st = list_all (\<lambda>x. x = None) (transport st)"

text \<open>
  What a button press that is answered with one edit of the message leaves behind: the
  log line of the handler, the answer to the query and the edit, both delivered.
  Nothing else of the state changes.
\<close>

definition answered_with :: "message \<Rightarrow> keyboard \<Rightarrow> bot_state \<Rightarrow> outcome \<times> bot_state" where
  "answered_with m kb st =
     (Resolved, st\<lparr>calls := calls st @ [(AnswerCallbackQuery, True), (EditMessageText m kb, True)],
                  logs := logs st @ [(LInfo, ''User Action: callback_query'')],
                  transport := tl (tl (transport st))\<rparr>)"

text \<open>An action that leaves the rate-limit map as it found it.\<close>

definition keeps_windows :: "action \<Rightarrow> bool" where
  "keeps_windows a = (\<forall>st. rateLimitStore (snd (a st)) = rateLimitStore st)"

definition window_ok :: "config \<Rightarrow> rate_record \<Rightarrow> bool" where
  "window_ok cfg r = (1 \<le> count r \<and> count r \<le> max (rateLimit_max cfg) 1)"


section \<open>Properties of the rate limiter\<close>

lemma rateLimitMiddleware_admit:
  "rateLimitMiddleware cfg now u next st =
     (case admit cfg (rate_key u) now (rateLimitStore st) of
        (Allow, store') \<Rightarrow> next (st\<lparr>rateLimitStore := store'\<rparr>)
      | (Deny, store') \<Rightarrow> ctx_reply TooManyRequests NoKeyboard st)"
  by (simp add: rateLimitMiddleware_def admit_def Let_def split: option.split)



text \<open>
  Claim C2, as the code has it. For a user with a window record, the rate limiter does
  one of three things. When \<open>now\<close> is after the end of the window
  (\<^verbatim>\<open>now > resetTime\<close>) the record is replaced by count 1 and the end
  \<open>now + W\<close>, and the request goes on. When \<open>now\<close> is at or before the end and the
  count is below the maximum, the count is incremented and the request goes on. When
  \<open>now\<close> is at or before the end and the count has reached the maximum, the user gets
  the notice and nothing else happens. So the count is incremented only while
  \<open>now \<le> resetTime\<close>, and the window is reset only once \<open>now > resetTime\<close>:
  at \<open>now = resetTime\<close> the window is still open.
\<close>

theorem rate_limit_window_cases:
  assumes "rateLimitStore st (rate_key u) = Some r"
  shows "(resetTime r < now \<longrightarrow>
            rateLimitMiddleware cfg now u next st =
              next (st\<lparr>rateLimitStore := (rateLimitStore st)
                     (rate_key u \<mapsto> \<lparr>count = 1, resetTime = now + rateLimit_window cfg\<rparr>)\<rparr>))
       \<and> (now \<le> resetTime r \<and> count r < rateLimit_max cfg \<longrightarrow>
            rateLimitMiddleware cfg now u next st =
              next (st\<lparr>rateLimitStore := (rateLimitStore st)(rate_key u \<mapsto> r\<lparr>count := count r + 1\<rparr>)\<rparr>))
       \<and> (now \<le> resetTime r \<and> rateLimit_max cfg \<le> count r \<longrightarrow>
            rateLimitMiddleware cfg now u next st = ctx_reply TooManyRequests NoKeyboard st)"
  using assms by (simp add: rateLimitMiddleware_def Let_def)

text \<open>
  The three cases at work, for user 7 with the window \<open>{count: 5, resetTime: 65000}\<close>
  at the times 65001 and 65000, and with a full window at the time 65000.
\<close>

theorem rate_limit_window_cases_witness:
  "rateLimitMiddleware example_config 65001 (text_from 7 ''/help'') returns (window_at 7 5 65000) =
     (Resolved, window_at 7 1 125001)
   \<and> rateLimitMiddleware example_config 65000 (text_from 7 ''/help'') returns (window_at 7 5 65000) =
     (Resolved, window_at 7 6 65000)
   \<and> rateLimitMiddleware example_config 65000 (text_from 7 ''/help'') returns (window_at 7 20 65000) =
     ctx_reply TooManyRequests NoKeyboard (window_at 7 20 65000)"
  using rate_limit_window_cases [where st = "window_at 7 5 65000" and u = "text_from 7 ''/help''"
      and now = 65001 and cfg = example_config and ?next = returns]
    rate_limit_window_cases [where st = "window_at 7 5 65000" and u = "text_from 7 ''/help''"
      and now = 65000 and cfg = example_config and ?next = returns]
    rate_limit_window_cases [where st = "window_at 7 20 65000" and u = "text_from 7 ''/help''"
      and now = 65000 and cfg = example_config and ?next = returns]
  by (simp add: window_at_def initial_state_def example_config_def rate_key_def text_from_def
      example_user_def returns_def)

text \<open>
  Claim C2 as the specification words it fails at \<open>now = resetTime\<close>: user 7 has the
  window \<open>{count: 5, resetTime: 65000}\<close> and sends a request at the time 65000, so
  \<open>now \<ge> resetTime\<close>; the record is not replaced by \<open>{count: 1, resetTime: 125000}\<close>,
  its count becomes 6 and its end stays 65000.
\<close>

theorem rate_limit_at_window_end_counterexample:
  "resetTime \<lparr>count = 5, resetTime = 65000\<rparr> \<le> 65000
   \<and> rateLimitStore (window_at 7 5 65000) (Uid 7) = Some \<lparr>count = 5, resetTime = 65000\<rparr>
   \<and> rateLimitStore
        (snd (rateLimitMiddleware example_config 65000 (text_from 7 ''/help'') returns
               (window_at 7 5 65000)))
        (Uid 7) = Some \<lparr>count = 6, resetTime = 65000\<rparr>"
  by (simp add: rateLimitMiddleware_def window_at_def initial_state_def example_config_def
      rate_key_def text_from_def example_user_def returns_def)

section \<open>Calls and the log\<close>

lemma fold_logger:
  "fold (\<lambda>x. logger lvl msg) xs st = st\<lparr>logs := logs st @ replicate (length xs) (lvl, msg)\<rparr>"
proof (induction xs arbitrary: st)
  case Nil
  show ?case by simp
next
  case (Cons x xs)
  have "fold (\<lambda>x. logger lvl msg) (x # xs) st = fold (\<lambda>x. logger lvl msg) xs (logger lvl msg st)"
    by simp
  also have "\<dots> = (logger lvl msg st)\<lparr>logs := logs (logger lvl msg st) @ replicate (length xs) (lvl, msg)\<rparr>"
    by (rule Cons.IH)
  also have "\<dots> = st\<lparr>logs := logs st @ replicate (length (x # xs)) (lvl, msg)\<rparr>"
    by (simp add: logger_def)
  finally show ?case .
qed



lemma api_reliable:
  assumes "reliable st"
  shows "api c st = (Resolved, st\<lparr>calls := calls st @ [(c, True)], transport := tl (transport st)\<rparr>)"
  using assms by (auto simp: api_def reliable_def split: list.splits option.splits)

lemma reliable_tl: "reliable st \<Longrightarrow> list_all (\<lambda>x. x = None) (tl (transport st))"
  by (cases "transport st") (simp_all add: reliable_def)

text \<open>The definitions that evaluate an update through the stack.\<close>

lemmas stack_defs =
  process_update_def errorMiddleware_def try_catch_def andThen_def returns_def
  userValidationMiddleware_def rateLimitMiddleware_def sessionMiddleware_def save_session_def
  commandValidationMiddleware_def handlers_def adminMiddleware_def handleError_def notifyAdmins_def
  error_kind_def message_includes_def TypeError_def
  ctx_reply_def ctx_editMessageText_def ctx_answerCallbackQuery_def api_def
  logUserAction_def logBotEvent_def logger_def
  message_text_def startsWith_slash_def command_token_def validCommands_def rate_key_def
  defaultSessionData_def Let_def

lemmas example_defs =
  example_config_def text_from_def callback_from_def example_user_def initial_state_def

section \<open>Properties of the error boundary\<close>





text \<open>
  \<^verbatim>\<open>handleError\<close> changes the log, the calls and the transport only, whatever was
  thrown and whether it resolves or not.
\<close>

lemma handleError_frame:
  "rateLimitStore (snd (handleError cfg e st)) = rateLimitStore st
   \<and> sessionStorage (snd (handleError cfg e st)) = sessionStorage st
   \<and> ctx_session (snd (handleError cfg e st)) = ctx_session st"
proof (cases e)
  case Nullish
  then show ?thesis by (simp add: handleError_def)
next
  case (Thrown name msg)
  show ?thesis
  proof (cases "error_kind msg")
    case None
    with Thrown show ?thesis by (simp add: handleError_def logger_def)
  next
    case (Some kind)
    obtain ty tx where kind: "kind = (ty, tx)" by (cases kind)
    obtain r s where reply: "api (Reply tx RetrySupport) (logger LError ''Bot error occurred'' st) = (r, s)"
      by (cases "api (Reply tx RetrySupport) (logger LError ''Bot error occurred'' st)")
    then have "rateLimitStore s = rateLimitStore st \<and> sessionStorage s = sessionStorage st
        \<and> ctx_session s = ctx_session st"
      by (auto simp: api_def logger_def split: list.splits option.splits)
    with Thrown Some kind reply show ?thesis
      by (cases r) (simp_all add: handleError_def Let_def ctx_reply_def notifyAdmins_def fold_logger logger_def)
  qed
qed


lemma errorMiddleware_passes:
  "next st = (Resolved, st1) \<Longrightarrow> errorMiddleware cfg next st = (Resolved, st1)"
  by (simp add: errorMiddleware_def try_catch_def)





section \<open>Properties of user validation\<close>

text \<open>
  Claim C10. For an update without a sender, user validation logs a warning and resolves
  without calling \<^verbatim>\<open>next\<close>, whatever \<^verbatim>\<open>next\<close> is; the whole stack resolves, makes
  no call (so sends no reply), leaves the rate-limit map and the stored sessions as they
  were, and adds that one line to the log.
\<close>

theorem update_without_sender_is_dropped:
  assumes "from_user u = None"
  shows "userValidationMiddleware cfg now u next st =
           (Resolved, logger LWarn ''Message received without user information'' st)
       \<and> fst (process_update cfg now u st) = Resolved
       \<and> calls (snd (process_update cfg now u st)) = calls st
       \<and> rateLimitStore (snd (process_update cfg now u st)) = rateLimitStore st
       \<and> sessionStorage (snd (process_update cfg now u st)) = sessionStorage st
       \<and> logs (snd (process_update cfg now u st)) =
           logs st @ [(LWarn, ''Message received without user information'')]"
  using assms
  by (simp add: process_update_def errorMiddleware_def try_catch_def userValidationMiddleware_def
      logger_def)

theorem update_without_sender_is_dropped_witness:
  "from_user channel_post = None
   \<and> userValidationMiddleware example_config 5000 channel_post helpCommand initial_state =
       (Resolved, logger LWarn ''Message received without user information'' initial_state)
   \<and> process_update example_config 5000 channel_post initial_state =
       (Resolved, logger LWarn ''Message received without user information'' initial_state)"
  using update_without_sender_is_dropped [where u = channel_post and cfg = example_config
      and now = 5000 and ?next = helpCommand and st = initial_state]
  by (simp add: channel_post_def initial_state_def logger_def process_update_def errorMiddleware_def
      try_catch_def userValidationMiddleware_def)




text \<open>
  In the stack, user validation runs before the session plugin, so it finds no
  \<^verbatim>\<open>ctx.session\<close>: for a sender who is not banned it only calls \<^verbatim>\<open>next\<close>.
\<close>

lemma validation_finds_no_session:
  assumes "from_user u = Some usr" and "user_id usr \<notin> set (bannedUsers cfg)"
  shows "userValidationMiddleware cfg now u next (st\<lparr>ctx_session := None\<rparr>) =
           next (st\<lparr>ctx_session := None\<rparr>)"
  using assms by (simp add: userValidationMiddleware_def)

text \<open>
  Claim C1 fails on the code. The configuration was loaded at the time 1000. User 42 is
  not banned and sends \<^verbatim>\<open>/help\<close> at the time 5000 and again at the time 9000. Both
  updates are validated and answered by the help handler. After the first, the session
  of the chat has \<open>messageCount = 0\<close> and \<open>lastActivity = 1000\<close>, as a new session
  has; after the second it still has: no update has incremented the count or set the
  last activity to its time.
\<close>

theorem validated_update_leaves_session_untouched:
  "user_id (example_user 42) \<notin> set (bannedUsers example_config)
   \<and> sessionStorage (snd (process_update example_config 5000 (text_from 42 ''/help'') initial_state)) 42 =
       Some (defaultSessionData example_config)
   \<and> sessionStorage
       (snd (process_update example_config 9000 (text_from 42 ''/help'')
              (snd (process_update example_config 5000 (text_from 42 ''/help'') initial_state)))) 42 =
       Some (defaultSessionData example_config)
   \<and> messageCount (defaultSessionData example_config) = Some 0
   \<and> lastActivity (defaultSessionData example_config) = Some 1000
   \<and> calls
       (snd (process_update example_config 9000 (text_from 42 ''/help'')
              (snd (process_update example_config 5000 (text_from 42 ''/help'') initial_state)))) =
       [(Reply Help MainMenu, True), (Reply Help MainMenu, True)]"
  by (simp add: stack_defs example_defs helpCommand_def)

section \<open>The first contact\<close>

text \<open>
  Claim C4 fails on the code. The configuration was loaded at the time 1000. User 42 has
  no session and sends \<^verbatim>\<open>/start\<close> at the time 5000: the session is created with
  \<open>joinedAt = 1000\<close>, the load time, not 5000, and the user gets the prompt for the
  inviter. A second \<^verbatim>\<open>/start\<close> at the time 9000 leaves \<open>joinedAt\<close> at 1000.
\<close>

theorem first_start_joinedAt_is_load_time:
  "loadTime example_config = 1000
   \<and> sessionStorage initial_state 42 = None
   \<and> map_option joinedAt
       (sessionStorage (snd (process_update example_config 5000 (text_from 42 ''/start'') initial_state)) 42)
     = Some (Some 1000)
   \<and> calls (snd (process_update example_config 5000 (text_from 42 ''/start'') initial_state))
     = [(Reply EnterInviterId NoKeyboard, True)]
   \<and> map_option joinedAt
       (sessionStorage
         (snd (process_update example_config 9000 (text_from 42 ''/start'')
                (snd (process_update example_config 5000 (text_from 42 ''/start'') initial_state)))) 42)
     = Some (Some 1000)"
  by (simp add: stack_defs example_defs startCommand_def falsy_def trim_def)

section \<open>The admin commands\<close>

text \<open>
  Command validation lets through the five commands of \<^verbatim>\<open>validCommands\<close> only. A
  text whose command is \<^verbatim>\<open>stats\<close>, \<^verbatim>\<open>broadcast\<close> or \<^verbatim>\<open>logs\<close> is answered
  there, whoever sent it, and \<^verbatim>\<open>next\<close> is not called.
\<close>

lemma admin_commands_are_cut_off:
  assumes "message_text u = Some t" and "startsWith_slash t"
    and "command_token t \<in> set [''stats'', ''broadcast'', ''logs'']"
  shows "commandValidationMiddleware u next st =
           ctx_reply UnknownCommand HelpButton (logger LInfo ''Invalid command received'' st)"
  using assms by (auto simp: commandValidationMiddleware_def validCommands_def)

text \<open>
  Claim C5 fails on the code. User 42 is not an admin and sends \<^verbatim>\<open>/stats\<close>. Command
  validation does not list the admin commands, so it answers with the unknown-command
  reply and the update never reaches \<^verbatim>\<open>adminMiddleware\<close>: the user does not get the
  permission-denied reply. The admin, user 1, gets the same unknown-command reply.
\<close>

theorem non_admin_stats_is_unknown_command:
  "42 \<notin> set (adminIds example_config)
   \<and> process_update example_config 5000 (text_from 42 ''/stats'') initial_state =
     (Resolved, initial_state
        \<lparr>rateLimitStore := [Uid 42 \<mapsto> \<lparr>count = 1, resetTime = 65000\<rparr>],
         sessionStorage := [42 \<mapsto> defaultSessionData example_config],
         ctx_session := Some (defaultSessionData example_config),
         calls := [(Reply UnknownCommand HelpButton, True)],
         logs := [(LInfo, ''Invalid command received'')]\<rparr>)
   \<and> 1 \<in> set (adminIds example_config)
   \<and> calls (snd (process_update example_config 5000 (text_from 1 ''/stats'') initial_state)) =
       [(Reply UnknownCommand HelpButton, True)]"
  by (simp add: stack_defs example_defs)

section \<open>Unknown callbacks\<close>

lemma answer_then_edit:
  assumes "reliable st"
  shows "andThen ctx_answerCallbackQuery
           (try_catch (ctx_editMessageText m kb) h) (logUserAction ''callback_query'' st) =
         (Resolved, st\<lparr>calls := calls st @ [(AnswerCallbackQuery, True), (EditMessageText m kb, True)],
                      logs := logs st @ [(LInfo, ''User Action: callback_query'')],
                      transport := tl (tl (transport st))\<rparr>)"
proof -
  let ?s0 = "logUserAction ''callback_query'' st"
  let ?s1 = "?s0\<lparr>calls := calls ?s0 @ [(AnswerCallbackQuery, True)], transport := tl (transport ?s0)\<rparr>"
  have r0: "reliable ?s0" using assms by (simp add: reliable_def logUserAction_def logger_def)
  have r1: "reliable ?s1" using reliable_tl [OF r0] by (simp add: reliable_def)
  have a: "ctx_answerCallbackQuery ?s0 = (Resolved, ?s1)"
    unfolding ctx_answerCallbackQuery_def by (rule api_reliable [OF r0])
  have e: "ctx_editMessageText m kb ?s1 =
      (Resolved, ?s1\<lparr>calls := calls ?s1 @ [(EditMessageText m kb, True)], transport := tl (transport ?s1)\<rparr>)"
    unfolding ctx_editMessageText_def by (rule api_reliable [OF r1])
  show ?thesis
    by (simp add: andThen_def try_catch_def a e) (simp add: logUserAction_def logger_def)
qed

text \<open>
  Claim C6, as the code has it. The payload of a button press is split at the colons
  into a namespace and parameters, and every call succeeds. Then the handler resolves,
  and it answers: an unknown namespace with the text "Unknown action. Please try again."
  and the main menu; an unknown verb of \<^verbatim>\<open>action\<close> with the text "Unknown action."
  and the main menu; an unknown verb of \<^verbatim>\<open>settings\<close> with the text "Unknown
  setting." and the settings keyboard; a verb of \<^verbatim>\<open>lang\<close> that is neither a
  language nor a property every object inherits with the text "Unknown language." and
  the language keyboard. In each case the state changes by the calls and the log line
  only.
\<close>

theorem unknown_callback_replies:
  assumes data: "payload u = CallbackQuery (Some d)" "d \<noteq> []"
    and parsed: "split_on CHR '':'' d = namespace # params"
    and net: "reliable st"
  shows "(namespace \<notin> set [''action'', ''settings'', ''lang'', ''broadcast''] \<longrightarrow>
            callbackQueryHandler u st = answered_with UnknownActionTryAgain MainMenu st)
       \<and> (namespace = ''action'' \<and>
          first_param params \<notin> Some ` set [''main'', ''help'', ''about'', ''settings'', ''back'', ''cancel'',
                                            ''retry'', ''support''] \<longrightarrow>
            callbackQueryHandler u st = answered_with UnknownAction MainMenu st)
       \<and> (namespace = ''settings'' \<and>
          first_param params \<notin> Some ` set [''language'', ''notifications''] \<longrightarrow>
            callbackQueryHandler u st = answered_with UnknownSetting SettingsKeyboard st)
       \<and> (namespace = ''lang'' \<and>
          first_param params \<notin> Some ` (set language_keys \<union> set object_prototype_keys) \<longrightarrow>
            callbackQueryHandler u st = answered_with UnknownLanguage LanguageKeyboard st)"
proof -
  have h: "callbackQueryHandler u st =
      andThen ctx_answerCallbackQuery
        (try_catch (callback_switch namespace params)
           (\<lambda>error s. ctx_editMessageText CallbackErrorText MainMenu
                          (logger LConsole ''Error handling callback:'' s)))
        (logUserAction ''callback_query'' st)"
    using data parsed by (simp add: callbackQueryHandler_def)
  have sw1: "callback_switch namespace params = ctx_editMessageText UnknownActionTryAgain MainMenu"
    if "namespace \<notin> set [''action'', ''settings'', ''lang'', ''broadcast'']"
    using that by (intro ext) (simp add: callback_switch_def)
  have sw2: "callback_switch namespace params = ctx_editMessageText UnknownAction MainMenu"
    if "namespace = ''action''"
      "first_param params \<notin> Some ` set [''main'', ''help'', ''about'', ''settings'', ''back'', ''cancel'',
                                            ''retry'', ''support'']"
    using that by (intro ext) (simp add: callback_switch_def handleActionCallback_def)
  have sw3: "callback_switch namespace params = ctx_editMessageText UnknownSetting SettingsKeyboard"
    if "namespace = ''settings''" "first_param params \<notin> Some ` set [''language'', ''notifications'']"
    using that by (intro ext) (simp add: callback_switch_def handleSettingsCallback_def)
  have sw4: "callback_switch namespace params = ctx_editMessageText UnknownLanguage LanguageKeyboard"
    if "namespace = ''lang''"
      "first_param params \<notin> Some ` (set language_keys \<union> set object_prototype_keys)"
    using that by (intro ext) (auto simp add: callback_switch_def handleLanguageCallback_def split: option.splits)
  have r1: "callbackQueryHandler u st = answered_with UnknownActionTryAgain MainMenu st"
    if "namespace \<notin> set [''action'', ''settings'', ''lang'', ''broadcast'']"
    unfolding h sw1 [OF that] answered_with_def by (rule answer_then_edit [OF net])
  have r2: "callbackQueryHandler u st = answered_with UnknownAction MainMenu st"
    if "namespace = ''action''"
      "first_param params \<notin> Some ` set [''main'', ''help'', ''about'', ''settings'', ''back'', ''cancel'',
                                            ''retry'', ''support'']"
    unfolding h sw2 [OF that] answered_with_def by (rule answer_then_edit [OF net])
  have r3: "callbackQueryHandler u st = answered_with UnknownSetting SettingsKeyboard st"
    if "namespace = ''settings''" "first_param params \<notin> Some ` set [''language'', ''notifications'']"
    unfolding h sw3 [OF that] answered_with_def by (rule answer_then_edit [OF net])
  have r4: "callbackQueryHandler u st = answered_with UnknownLanguage LanguageKeyboard st"
    if "namespace = ''lang''"
      "first_param params \<notin> Some ` (set language_keys \<union> set object_prototype_keys)"
    unfolding h sw4 [OF that] answered_with_def by (rule answer_then_edit [OF net])
  from r1 r2 r3 r4 show ?thesis by blast
qed

theorem unknown_callback_replies_witness:
  "callbackQueryHandler (callback_from 42 ''bogus:verb'') initial_state =
     answered_with UnknownActionTryAgain MainMenu initial_state
   \<and> callbackQueryHandler (callback_from 42 ''action:bogus'') initial_state =
     answered_with UnknownAction MainMenu initial_state
   \<and> callbackQueryHandler (callback_from 42 ''settings:bogus'') initial_state =
     answered_with UnknownSetting SettingsKeyboard initial_state
   \<and> callbackQueryHandler (callback_from 42 ''lang:xx'') initial_state =
     answered_with UnknownLanguage LanguageKeyboard initial_state"
  using
    unknown_callback_replies [where u = "callback_from 42 ''bogus:verb''" and d = "''bogus:verb''"
      and namespace = "''bogus''" and params = "[''verb'']" and st = initial_state]
    unknown_callback_replies [where u = "callback_from 42 ''action:bogus''" and d = "''action:bogus''"
      and namespace = "''action''" and params = "[''bogus'']" and st = initial_state]
    unknown_callback_replies [where u = "callback_from 42 ''settings:bogus''" and d = "''settings:bogus''"
      and namespace = "''settings''" and params = "[''bogus'']" and st = initial_state]
    unknown_callback_replies [where u = "callback_from 42 ''lang:xx''" and d = "''lang:xx''"
      and namespace = "''lang''" and params = "[''xx'']" and st = initial_state]
  by (simp add: callback_from_def reliable_def initial_state_def first_param_def language_keys_def
      object_prototype_keys_def)

text \<open>
  Claim C6 as the specification words it fails for an unknown verb of a known namespace
  other than \<^verbatim>\<open>action\<close>: the payload \<^verbatim>\<open>settings:bogus\<close> is answered with the text
  "Unknown setting." and the settings keyboard, not with the unknown-action reply and
  the main menu.
\<close>

theorem unknown_setting_reply_counterexample:
  "split_on CHR '':'' ''settings:bogus'' = [''settings'', ''bogus'']
   \<and> callbackQueryHandler (callback_from 42 ''settings:bogus'') initial_state =
     (Resolved, initial_state
        \<lparr>calls := [(AnswerCallbackQuery, True), (EditMessageText UnknownSetting SettingsKeyboard, True)],
         logs := [(LInfo, ''User Action: callback_query'')]\<rparr>)"
  by (simp add: callbackQueryHandler_def callback_switch_def handleSettingsCallback_def first_param_def
      stack_defs example_defs)

section \<open>The windows are changed by the rate limiter only\<close>

lemma keeps_windowsI: "(\<And>st. rateLimitStore (snd (a st)) = rateLimitStore st) \<Longrightarrow> keeps_windows a"
  by (simp add: keeps_windows_def)

lemma keeps_windowsD: "keeps_windows a \<Longrightarrow> rateLimitStore (snd (a st)) = rateLimitStore st"
  by (simp add: keeps_windows_def)

lemma windows_logger [simp]: "rateLimitStore (logger lvl msg st) = rateLimitStore st"
  by (simp add: logger_def)

lemma windows_logUserAction [simp]: "rateLimitStore (logUserAction a st) = rateLimitStore st"
  by (simp add: logUserAction_def)

lemma windows_logBotEvent [simp]: "rateLimitStore (logBotEvent a st) = rateLimitStore st"
  by (simp add: logBotEvent_def)

lemma windows_set_idle [simp]: "rateLimitStore (set_idle st) = rateLimitStore st"
  by (simp add: set_idle_def split: option.splits)

lemma windows_save_session [simp]: "rateLimitStore (save_session key st) = rateLimitStore st"
  by (simp add: save_session_def split: option.splits)

lemma windows_api [simp]: "rateLimitStore (snd (api c st)) = rateLimitStore st"
  by (simp add: api_def split: list.splits option.splits)

lemma windows_reply [simp]: "rateLimitStore (snd (ctx_reply m kb st)) = rateLimitStore st"
  by (simp add: ctx_reply_def)

lemma windows_edit [simp]: "rateLimitStore (snd (ctx_editMessageText m kb st)) = rateLimitStore st"
  by (simp add: ctx_editMessageText_def)

lemma windows_answer [simp]: "rateLimitStore (snd (ctx_answerCallbackQuery st)) = rateLimitStore st"
  by (simp add: ctx_answerCallbackQuery_def)

lemma keeps_andThen:
  assumes "keeps_windows a" and "keeps_windows b"
  shows "keeps_windows (andThen a b)"
proof (rule keeps_windowsI)
  fix st
  obtain r st' where a: "a st = (r, st')" by (cases "a st")
  with keeps_windowsD [OF assms(1), of st] have "rateLimitStore st' = rateLimitStore st" by simp
  with a keeps_windowsD [OF assms(2), of st'] show "rateLimitStore (snd (andThen a b st)) = rateLimitStore st"
    by (cases r) (simp_all add: andThen_def)
qed

lemma keeps_try_catch:
  assumes "keeps_windows a" and "\<And>e. keeps_windows (h e)"
  shows "keeps_windows (try_catch a h)"
proof (rule keeps_windowsI)
  fix st
  obtain r st' where a: "a st = (r, st')" by (cases "a st")
  with keeps_windowsD [OF assms(1), of st] have "rateLimitStore st' = rateLimitStore st" by simp
  with a keeps_windowsD [OF assms(2), of _ st'] show "rateLimitStore (snd (try_catch a h st)) = rateLimitStore st"
    by (cases r) (simp_all add: try_catch_def)
qed

lemma keeps_startCommand: "keeps_windows (startCommand cfg now u)"
  by (rule keeps_windowsI) (simp add: startCommand_def Let_def split: option.splits post_result.splits)

lemma keeps_adminMiddleware:
  assumes "keeps_windows next"
  shows "keeps_windows (adminMiddleware cfg u next)"
proof -
  have "keeps_windows (andThen (ctx_reply PermissionDenied NoKeyboard)
                     (\<lambda>s. (Resolved, logger LWarn ''Non-admin attempted to use admin command'' s)))"
    by (intro keeps_andThen keeps_windowsI) simp_all
  from keeps_windowsD [OF this] keeps_windowsD [OF assms] show ?thesis
    by (intro keeps_windowsI) (simp add: adminMiddleware_def Let_def split: option.splits)
qed

lemma keeps_handleActionCallback: "keeps_windows (handleActionCallback verb)"
  by (rule keeps_windowsI) (simp add: handleActionCallback_def)

lemma keeps_handleSettingsCallback: "keeps_windows (handleSettingsCallback verb)"
  by (rule keeps_windowsI) (simp add: handleSettingsCallback_def Let_def split: option.splits)

lemma keeps_handleLanguageCallback: "keeps_windows (handleLanguageCallback verb)"
  by (rule keeps_windowsI) (simp add: handleLanguageCallback_def split: option.splits)

lemma keeps_handleBroadcastCallback: "keeps_windows (handleBroadcastCallback params)"
proof -
  have "keeps_windows (andThen (ctx_editMessageText BroadcastSent NoKeyboard)
                 (\<lambda>s. (Resolved, logUserAction ''broadcast_sent'' s)))"
    by (intro keeps_andThen keeps_windowsI) simp_all
  from keeps_windowsD [OF this] show ?thesis
    by (intro keeps_windowsI) (simp add: handleBroadcastCallback_def split: list.splits)
qed

lemma keeps_callback_switch: "keeps_windows (callback_switch namespace params)"
  using keeps_windowsD [OF keeps_handleActionCallback] keeps_windowsD [OF keeps_handleSettingsCallback]
    keeps_windowsD [OF keeps_handleLanguageCallback] keeps_windowsD [OF keeps_handleBroadcastCallback]
  by (intro keeps_windowsI) (simp add: callback_switch_def)

lemma keeps_callbackQueryHandler: "keeps_windows (callbackQueryHandler u)"
proof (rule keeps_windowsI)
  fix st
  have k: "keeps_windows (andThen ctx_answerCallbackQuery
             (try_catch (callback_switch namespace params)
                (\<lambda>error s. ctx_editMessageText CallbackErrorText MainMenu
                               (logger LConsole ''Error handling callback:'' s))))" for namespace params
    by (intro keeps_andThen keeps_try_catch keeps_callback_switch keeps_windowsI) simp_all
  have k': "keeps_windows (andThen ctx_answerCallbackQuery returns)"
    by (intro keeps_andThen keeps_windowsI) (simp_all add: returns_def)
  show "rateLimitStore (snd (callbackQueryHandler u st)) = rateLimitStore st"
    by (simp add: callbackQueryHandler_def keeps_windowsD [OF k] keeps_windowsD [OF k']
        split: payload.splits option.splits list.splits)
qed

lemma keeps_textMessageHandler: "keeps_windows (textMessageHandler t)"
  by (rule keeps_windowsI) (simp add: textMessageHandler_def Let_def)

lemma keeps_handlers: "keeps_windows (handlers cfg now u)"
proof -
  have admin: "rateLimitStore (snd (adminMiddleware cfg u a st)) = rateLimitStore st"
    if "\<And>s. rateLimitStore (snd (a s)) = rateLimitStore s" for a st
    by (rule keeps_windowsD [OF keeps_adminMiddleware [OF keeps_windowsI [OF that]]])
  show ?thesis
    by (rule keeps_windowsI)
      (simp add: handlers_def Let_def helpCommand_def settingsCommand_def aboutCommand_def
        cancelCommand_def statsCommand_def logsCommand_def debugCommand_def broadcastCommand_def
        admin keeps_windowsD [OF keeps_startCommand] keeps_windowsD [OF keeps_callbackQueryHandler]
        keeps_windowsD [OF keeps_textMessageHandler]
        split: payload.splits)
qed

lemma keeps_commandValidation:
  assumes "keeps_windows next"
  shows "keeps_windows (commandValidationMiddleware u next)"
  using keeps_windowsD [OF assms]
  by (intro keeps_windowsI) (simp add: commandValidationMiddleware_def split: option.splits)

lemma keeps_sessionMiddleware:
  assumes "keeps_windows next"
  shows "keeps_windows (sessionMiddleware cfg u next)"
proof (rule keeps_windowsI)
  fix st :: bot_state
  let ?s = "st\<lparr>ctx_session := Some (case sessionStorage st (chat_id u) of
                                      None \<Rightarrow> defaultSessionData cfg | Some s \<Rightarrow> s)\<rparr>"
  obtain r st' where n: "next ?s = (r, st')" by (cases "next ?s")
  with keeps_windowsD [OF assms, of ?s] have "rateLimitStore st' = rateLimitStore st" by simp
  with n show "rateLimitStore (snd (sessionMiddleware cfg u next st)) = rateLimitStore st"
    by (cases r) (simp_all add: sessionMiddleware_def Let_def split: option.splits)
qed

lemma keeps_handleError: "keeps_windows (handleError cfg e)"
  by (rule keeps_windowsI) (simp add: handleError_frame)

text \<open>What one update does to the windows.\<close>

lemma process_update_windows:
  "rateLimitStore (snd (process_update cfg now u st)) = rateLimitStore st
   \<or> rateLimitStore (snd (process_update cfg now u st)) =
       snd (admit cfg (rate_key u) now (rateLimitStore st))"
proof -
  let ?down = "sessionMiddleware cfg u (commandValidationMiddleware u (handlers cfg now u))"
  have down: "keeps_windows ?down"
    by (intro keeps_sessionMiddleware keeps_commandValidation keeps_handlers)
  have rl: "rateLimitStore (snd (rateLimitMiddleware cfg now u ?down s)) = rateLimitStore s
     \<or> rateLimitStore (snd (rateLimitMiddleware cfg now u ?down s)) =
       snd (admit cfg (rate_key u) now (rateLimitStore s))" for s
    by (cases "admit cfg (rate_key u) now (rateLimitStore s)" rule: prod.exhaust;
        cases "fst (admit cfg (rate_key u) now (rateLimitStore s))")
      (simp_all add: rateLimitMiddleware_admit keeps_windowsD [OF down])
  let ?uv = "userValidationMiddleware cfg now u (rateLimitMiddleware cfg now u ?down)"
  have uv: "rateLimitStore (snd (?uv s)) = rateLimitStore s
     \<or> rateLimitStore (snd (?uv s)) = snd (admit cfg (rate_key u) now (rateLimitStore s))"
    if "ctx_session s = None" for s
    using that rl [of s] by (simp add: userValidationMiddleware_def split: option.splits)
  let ?s0 = "st\<lparr>ctx_session := None\<rparr>"
  obtain r st' where run: "?uv ?s0 = (r, st')" by (cases "?uv ?s0")
  have "rateLimitStore (snd (process_update cfg now u st)) = rateLimitStore st'"
    using run keeps_windowsD [OF keeps_handleError, of cfg _ st']
    by (cases r) (simp_all add: process_update_def errorMiddleware_def try_catch_def)
  with uv [of ?s0] run show ?thesis by simp
qed

lemma admit_window_ok:
  assumes "\<And>k r. store k = Some r \<Longrightarrow> window_ok cfg r"
    and "snd (admit cfg key now store) k = Some r"
  shows "window_ok cfg r"
proof (cases "store key")
  case None
  with assms(2) assms(1) [of k r] show ?thesis
    by (cases "k = key") (auto simp: admit_def Let_def window_ok_def split: if_splits)
next
  case (Some old)
  with assms(1) have "window_ok cfg old" by simp
  with Some assms(2) assms(1) [of k r] show ?thesis
    by (cases "k = key") (auto simp: admit_def Let_def window_ok_def split: if_splits)
qed

text \<open>
  Claim C9. In every state the process can reach, every record of the rate-limit map has
  a count of at least 1 and at most \<open>max M 1\<close>: a record is created or replaced with
  count 1, it is incremented only while its count is below \<open>M\<close>, and nothing but the
  rate limiter writes to the map.
\<close>

theorem window_count_bounds:
  assumes "reachable cfg st" and "rateLimitStore st k = Some r"
  shows "1 \<le> count r \<and> count r \<le> max (rateLimit_max cfg) 1"
proof -
  have "\<forall>k r. rateLimitStore st k = Some r \<longrightarrow> window_ok cfg r"
    using assms(1)
  proof (induction rule: reachable.induct)
    case start
    show ?case by (simp add: initial_state_def)
  next
    case (step st now u tr)
    let ?s = "st\<lparr>transport := tr\<rparr>"
    have inv: "\<And>k r. rateLimitStore ?s k = Some r \<Longrightarrow> window_ok cfg r"
      using step.IH by simp
    from process_update_windows [of cfg now u ?s] show ?case
    proof
      assume "rateLimitStore (snd (process_update cfg now u ?s)) = rateLimitStore ?s"
      with inv show ?thesis by simp
    next
      assume "rateLimitStore (snd (process_update cfg now u ?s)) =
                snd (admit cfg (rate_key u) now (rateLimitStore ?s))"
      with admit_window_ok [of "rateLimitStore ?s" cfg] inv show ?thesis by metis
    qed
  qed
  with assms(2) show ?thesis by (simp add: window_ok_def)
qed

text \<open>The state after one update from user 42, whose window then has count 1.\<close>

theorem window_count_bounds_witness:
  "reachable example_config
     (snd (process_update example_config 5000 (text_from 42 ''/help'') (initial_state\<lparr>transport := []\<rparr>)))
   \<and> rateLimitStore
       (snd (process_update example_config 5000 (text_from 42 ''/help'') (initial_state\<lparr>transport := []\<rparr>)))
       (Uid 42) = Some \<lparr>count = 1, resetTime = 65000\<rparr>
   \<and> 1 \<le> count \<lparr>count = 1, resetTime = 65000\<rparr>
   \<and> count \<lparr>count = 1, resetTime = 65000\<rparr> \<le> max (rateLimit_max example_config) 1"
proof -
  let ?st = "snd (process_update example_config 5000 (text_from 42 ''/help'')
                   (initial_state\<lparr>transport := []\<rparr>))"
  have r: "reachable example_config ?st"
    by (rule reachable.step [OF reachable.start])
  have l: "rateLimitStore ?st (Uid 42) = Some \<lparr>count = 1, resetTime = 65000\<rparr>"
    by (simp add: stack_defs example_defs helpCommand_def)
  from window_count_bounds [OF r l] r l show ?thesis by simp
qed

section \<open>Twenty-one requests in one window\<close>














end
